theory Spec2Isabelle
  imports Main "HOL-Library.Word" "HOL-Library.Signed_Division"
begin

unbundle bit_operations_syntax

section \<open>The JZ4780 NAND driver: data model\<close>

text \<open>
  The driver runs on a 32-bit MIPS core. C \<open>int\<close>, \<open>unsigned int\<close>, \<open>uint32_t\<close> and
  pointers are 32-bit words; \<open>+\<close>, \<open>-\<close> and \<open>*\<close> wrap around. A signed value is read
  with \<open>sint\<close>, an unsigned one with \<open>unat\<close>. A pointer is its address; \<open>NULL\<close> is 0.
\<close>

type_synonym u8 = "8 word"
type_synonym u32 = "32 word"
type_synonym s32 = "32 word"

definition OFFSET_DATA :: u32 where "OFFSET_DATA = 0x00000000"
definition OFFSET_CMD :: u32 where "OFFSET_CMD = 0x00400000"
definition OFFSET_ADDR :: u32 where "OFFSET_ADDR = 0x00800000"

definition RB_DELAY_US :: s32 where "RB_DELAY_US = 100"

text \<open>
  Modelled from the spec: the control bits, the no-byte sentinel, the ECC mode hints and
  the ECC modes that the driver takes from \<open>linux/mtd/nand.h\<close>, a header that is not part
  of the source. The spec names the chip-enable, command-latch and address-latch bits, the
  bus-state-change flag and the "no byte" sentinel; the values are those of the header.
  The theorems below use the names only, so they hold for whatever masks the header gives.
\<close>

definition NAND_NCE :: u32 where "NAND_NCE = 0x01"
definition NAND_CLE :: u32 where "NAND_CLE = 0x02"
definition NAND_ALE :: u32 where "NAND_ALE = 0x04"
definition NAND_CTRL_CHANGE :: u32 where "NAND_CTRL_CHANGE = 0x80"
definition NAND_CMD_NONE :: s32 where "NAND_CMD_NONE = - 1"

definition NAND_ECC_READ :: s32 where "NAND_ECC_READ = 0"
definition NAND_ECC_WRITE :: s32 where "NAND_ECC_WRITE = 1"

datatype nand_ecc_modes_t =
  NAND_ECC_NONE | NAND_ECC_SOFT | NAND_ECC_HW | NAND_ECC_HW_SYNDROME
  | NAND_ECC_HW_OOB_FIRST | NAND_ECC_SOFT_BCH

text \<open>Modelled from the spec: the error numbers of \<open>errno.h\<close>, returned negated.\<close>

definition ENOMEM :: s32 where "ENOMEM = 12"
definition ENODEV :: s32 where "ENODEV = 19"

record jz4780_nand_cs =
  bank :: u32
  base :: u32

text \<open>
  \<open>struct jz4780_nand_controller\<close>: the BCH device pointer and the flexible array \<open>cs[]\<close>,
  whose length is \<open>num_banks\<close>.
\<close>

record jz4780_nand_controller =
  bch :: u32
  cs :: "jz4780_nand_cs list"

record nand_oobfree =
  oobfree_offset :: u32
  oobfree_length :: u32

record jz4780_bch_params =
  params_size :: s32
  params_bytes :: s32
  params_strength :: s32

text \<open>
  \<open>struct jz4780_nand_chip\<close> with the fields of the embedded \<open>mtd_info\<close>, \<open>nand_chip\<close>
  and \<open>nand_ecclayout\<close> that the driver reads or writes. The arrays \<open>eccpos[]\<close> and
  \<open>oobfree[]\<close> are maps from the index to the element. The number of elements of
  \<open>eccpos[]\<close> is declared in a header outside the source; it is the parameter
  \<open>eccpos_capacity\<close> below, and the map holds the elements below it. A hook pointer is
  the flag that the driver has installed its function there.
\<close>

record jz4780_nand_chip =
  mtd_writesize :: u32
  mtd_oobsize :: u32
  IO_ADDR_R :: u32
  IO_ADDR_W :: u32
  chip_delay :: s32
  bus_hooks_set :: bool
  dev_ready_set :: bool
  ecc_mode :: nand_ecc_modes_t
  ecc_size :: s32
  ecc_bytes :: s32
  ecc_strength :: s32
  ecc_hooks_set :: bool
  ecc_layout_set :: bool
  layout_eccbytes :: u32
  layout_eccpos :: "nat \<Rightarrow> u32"
  layout_oobfree :: "nat \<Rightarrow> nand_oobfree"
  busy_gpio :: u32
  wp_gpio :: u32
  busy_gpio_active_low :: bool
  wp_gpio_active_low :: bool
  reading :: bool
  selected :: s32

text \<open>
  What the driver does to the world outside its own records, in the order it happens:
  calls into the NEMC and BCH modules, byte writes to the memory-mapped window, kernel
  warnings and log lines (the format and its arguments), and the calls of the attach path
  into the NAND framework. \<open>Store_Past_Eccpos i v\<close> is a store of \<open>v\<close> through
  \<open>eccpos[i]\<close> with \<open>i\<close> at or beyond the end of the array: it goes to the memory
  behind the array, which holds the fields that follow it in the header's declaration.
  The model records the store; what it overwrites there is not modelled.
\<close>

datatype event =
  Nemc_Assert u32 bool
  | Nemc_Set_Type u32
  | Writeb u8 u32
  | Warn_On
  | Bch_Calculate u32 jz4780_bch_params "u8 list"
  | Bch_Correct u32 jz4780_bch_params "u8 list" "u8 list"
  | Bch_Get u32
  | Bch_Release u32
  | Dev_Err string "s32 list"
  | Store_Past_Eccpos nat u32
  | Dev_Info_Bch bool s32 s32 s32
  | Dev_Info_No_Ecc
  | Nand_Scan_Ident
  | Nand_Scan_Tail
  | Mtd_Device_Parse_Register
  | Nand_Release

record machine =
  nfc :: jz4780_nand_controller
  nand :: jz4780_nand_chip
  trace :: "event list"

text \<open>
  The kernel services the driver calls, as parameters: each field gives what the call
  returns. A BCH call returns its status and the buffer it has written. A call that
  returns a pointer or an error pointer returns \<open>Inr\<close> the pointer or \<open>Inl\<close> the
  negative status the error pointer carries. The two scans of the NAND framework return
  their status and the chip record as they leave it. \<open>eccpos_capacity\<close> is the number
  of elements of \<open>eccpos[]\<close> in \<open>struct nand_ecclayout\<close>, which \<open>linux/mtd/mtd.h\<close>
  declares.
\<close>

record platform =
  gpiod_get_value_cansleep :: "u32 \<Rightarrow> s32"
  gpiod_is_active_low :: "u32 \<Rightarrow> bool"
  jz4780_bch_calculate :: "u32 \<Rightarrow> jz4780_bch_params \<Rightarrow> u8 list \<Rightarrow> u8 list \<Rightarrow> s32 \<times> u8 list"
  jz4780_bch_correct :: "u32 \<Rightarrow> jz4780_bch_params \<Rightarrow> u8 list \<Rightarrow> u8 list \<Rightarrow> s32 \<times> u8 list"
  of_parse_phandle :: u32
  jz4780_bch_get :: "u32 \<Rightarrow> s32 \<times> u32"
  devm_ioremap_resource :: "u32 \<Rightarrow> s32 + u32"
  devm_kzalloc :: bool
  devm_gpiod_get_optional :: "string \<Rightarrow> s32 + u32"
  nand_scan_ident :: "jz4780_nand_chip \<Rightarrow> s32 \<times> jz4780_nand_chip"
  nand_scan_tail :: "jz4780_nand_chip \<Rightarrow> s32 \<times> jz4780_nand_chip"
  mtd_device_parse_register :: "jz4780_nand_chip \<Rightarrow> s32"
  eccpos_capacity :: nat

text \<open>
  What C leaves undefined and the machine traps on: an index outside \<open>cs[]\<close> and an
  integer division by zero.
\<close>

datatype fault = Cs_Out_Of_Bounds | Division_By_Zero

definition emit :: "event \<Rightarrow> machine \<Rightarrow> machine" where
  "emit e m = m\<lparr>trace := trace m @ [e]\<rparr>"

definition cs_at :: "jz4780_nand_controller \<Rightarrow> s32 \<Rightarrow> fault + jz4780_nand_cs" where
  "cs_at c i =
     (if 0 \<le> sint i \<and> nat (sint i) < length (cs c) then Inr (cs c ! nat (sint i))
      else Inl Cs_Out_Of_Bounds)"

section \<open>The hooks\<close>

definition jz4780_nand_select_chip :: "machine \<Rightarrow> s32 \<Rightarrow> fault + machine" where
  "jz4780_nand_select_chip m chipnr =
     (case
        (if chipnr = - 1 then
           (if 0 \<le> sint (selected (nand m)) then
              (case cs_at (nfc m) (selected (nand m)) of
                 Inl f \<Rightarrow> Inl f
               | Inr c \<Rightarrow> Inr (emit (Nemc_Assert (bank c) False) m))
            else Inr m)
         else
           (case cs_at (nfc m) chipnr of
              Inl f \<Rightarrow> Inl f
            | Inr c \<Rightarrow>
                Inr (m\<lparr>nand := (nand m)\<lparr>IO_ADDR_R := base c + OFFSET_DATA,
                                        IO_ADDR_W := base c + OFFSET_DATA\<rparr>\<rparr>)))
      of
        Inl f \<Rightarrow> Inl f
      | Inr m1 \<Rightarrow> Inr (m1\<lparr>nand := (nand m1)\<lparr>selected := chipnr\<rparr>\<rparr>))"

definition jz4780_nand_cmd_ctrl :: "machine \<Rightarrow> s32 \<Rightarrow> u32 \<Rightarrow> fault + machine" where
  "jz4780_nand_cmd_ctrl m cmd ctrl =
     (if sint (selected (nand m)) < 0 then Inr (emit Warn_On m)
      else
        (case
           (if ctrl AND NAND_CTRL_CHANGE \<noteq> 0 then
              (case cs_at (nfc m) (selected (nand m)) of
                 Inl f \<Rightarrow> Inl f
               | Inr c \<Rightarrow>
                   Inr (emit (Nemc_Assert (bank c) (ctrl AND NAND_NCE \<noteq> 0))
                          (m\<lparr>nand := (nand m)\<lparr>IO_ADDR_W :=
                               (if ctrl AND NAND_ALE \<noteq> 0 then base c + OFFSET_ADDR
                                else if ctrl AND NAND_CLE \<noteq> 0 then base c + OFFSET_CMD
                                else base c + OFFSET_DATA)\<rparr>\<rparr>)))
            else Inr m)
         of
           Inl f \<Rightarrow> Inl f
         | Inr m1 \<Rightarrow>
             Inr (if cmd \<noteq> NAND_CMD_NONE
                  then emit (Writeb (ucast cmd) (IO_ADDR_W (nand m1))) m1
                  else m1)))"

definition jz4780_nand_dev_ready :: "platform \<Rightarrow> machine \<Rightarrow> s32" where
  "jz4780_nand_dev_ready pf m =
     (if gpiod_get_value_cansleep pf (busy_gpio (nand m))
           XOR (if busy_gpio_active_low (nand m) then 1 else 0) = 0
      then 1 else 0)"

definition jz4780_nand_ecc_hwctl :: "machine \<Rightarrow> s32 \<Rightarrow> machine" where
  "jz4780_nand_ecc_hwctl m mode = m\<lparr>nand := (nand m)\<lparr>reading := (mode = NAND_ECC_READ)\<rparr>\<rparr>"

definition chip_bch_params :: "jz4780_nand_chip \<Rightarrow> jz4780_bch_params" where
  "chip_bch_params c =
     \<lparr>params_size = ecc_size c, params_bytes = ecc_bytes c, params_strength = ecc_strength c\<rparr>"

text \<open>The result is the returned status, the \<open>ecc_code\<close> buffer after the call and the machine.\<close>

definition jz4780_nand_ecc_calculate ::
  "platform \<Rightarrow> machine \<Rightarrow> u8 list \<Rightarrow> u8 list \<Rightarrow> s32 \<times> u8 list \<times> machine" where
  "jz4780_nand_ecc_calculate pf m dat ecc_code =
     (if reading (nand m) then (0, ecc_code, m)
      else
        (let params = chip_bch_params (nand m);
             r = jz4780_bch_calculate pf (bch (nfc m)) params dat ecc_code
         in (fst r, snd r, emit (Bch_Calculate (bch (nfc m)) params dat) m)))"

text \<open>The result is the returned status, the \<open>dat\<close> buffer after the call and the machine.\<close>

definition jz4780_nand_ecc_correct ::
  "platform \<Rightarrow> machine \<Rightarrow> u8 list \<Rightarrow> u8 list \<Rightarrow> u8 list \<Rightarrow> s32 \<times> u8 list \<times> machine" where
  "jz4780_nand_ecc_correct pf m dat read_ecc calc_ecc =
     (let params = chip_bch_params (nand m);
          r = jz4780_bch_correct pf (bch (nfc m)) params dat read_ecc
      in (fst r, snd r, emit (Bch_Correct (bch (nfc m)) params dat read_ecc) m))"

section \<open>ECC parameters and OOB layout\<close>

text \<open>
  Modelled from the spec: \<open>fls\<close> of the kernel's bit operations, which is not part of the
  source: the 1-based position of the highest set bit of its argument, and 0 for 0.
\<close>

fun fls_nat :: "nat \<Rightarrow> nat" where
  "fls_nat n = (if n = 0 then 0 else Suc (fls_nat (n div 2)))"

declare fls_nat.simps [simp del]

definition fls :: "s32 \<Rightarrow> s32" where
  "fls x = of_nat (fls_nat (unat x))"

text \<open>C's \<open>/\<close> on \<open>int\<close>: the quotient is truncated towards zero.\<close>

definition c_sdiv :: "s32 \<Rightarrow> s32 \<Rightarrow> s32" where
  "c_sdiv a b = word_of_int (sint a sdiv sint b)"

text \<open>
  The loop \<open>for (i = 0; i < layout->eccbytes; i++) layout->eccpos[i] = start + i\<close>.
  The loop has no bound but \<open>eccbytes\<close>: a store with \<open>i\<close> inside the array updates
  the element, a store with \<open>i\<close> at or beyond its capacity is recorded as an event.
\<close>

function fill_eccpos ::
  "nat \<Rightarrow> u32 \<Rightarrow> u32 \<Rightarrow> u32 \<Rightarrow> (nat \<Rightarrow> u32) \<Rightarrow> event list \<Rightarrow> (nat \<Rightarrow> u32) \<times> event list" where
  "fill_eccpos cap eccbytes start i eccpos evs =
     (if i < eccbytes
      then (if unat i < cap
            then fill_eccpos cap eccbytes start (i + 1) (eccpos(unat i := start + i)) evs
            else fill_eccpos cap eccbytes start (i + 1) eccpos
                   (evs @ [Store_Past_Eccpos (unat i) (start + i)]))
      else (eccpos, evs))"
  by pat_completeness auto

termination
proof (relation "measure (\<lambda>(c, n, s, i, p, e). unat n - unat i)")
  show "wf (measure (\<lambda>(c :: nat, n :: u32, s :: u32, i :: u32, p :: nat \<Rightarrow> u32,
      e :: event list). unat n - unat i))"
    by simp
next
  fix cap :: nat and eccbytes start i :: u32 and eccpos :: "nat \<Rightarrow> u32"
    and evs :: "event list"
  assume less: "i < eccbytes"
  then have lt: "unat i < unat eccbytes"
    by (simp add: word_less_nat_alt)
  have "i \<noteq> - 1"
    using less word_n1_ge [of eccbytes] by auto
  then have "1 + i \<noteq> 0"
    by (simp add: add_eq_0_iff)
  then have suc: "unat (i + 1) = Suc (unat i)"
    using unatSuc [of i] by (simp add: add.commute)
  from lt suc
  show "((cap, eccbytes, start, i + 1, eccpos(unat i := start + i), evs),
         cap, eccbytes, start, i, eccpos, evs)
      \<in> measure (\<lambda>(c, n, s, i, p, e). unat n - unat i)"
    by simp
  from lt suc
  show "((cap, eccbytes, start, i + 1, eccpos,
          evs @ [Store_Past_Eccpos (unat i) (start + i)]),
         cap, eccbytes, start, i, eccpos, evs)
      \<in> measure (\<lambda>(c, n, s, i, p, e). unat n - unat i)"
    by simp
qed

declare fill_eccpos.simps [simp del]

text \<open>
  The body of \<open>if (chip->ecc.mode == NAND_ECC_HW)\<close> in \<open>jz4780_nand_init_ecc\<close>:
  \<open>Inl\<close> is an early \<open>return\<close> with its status, \<open>Inr\<close> falls through.
\<close>

definition init_ecc_hw :: "platform \<Rightarrow> machine \<Rightarrow> (s32 \<times> machine) + machine" where
  "init_ecc_hw pf m =
     (case
        (if bch (nfc m) = 0 then
           (if of_parse_phandle pf \<noteq> 0 then
              (let r = jz4780_bch_get pf (of_parse_phandle pf);
                   m1 = emit (Bch_Get (of_parse_phandle pf)) (m\<lparr>nfc := (nfc m)\<lparr>bch := snd r\<rparr>\<rparr>)
               in if fst r \<noteq> 0 then Inl (fst r, m1) else Inr m1)
            else Inl (- ENODEV, emit (Dev_Err ''no bch controller in DT'' []) m))
         else Inr m)
      of
        Inl e \<Rightarrow> Inl e
      | Inr m1 \<Rightarrow> Inr (m1\<lparr>nand := (nand m1)\<lparr>ecc_hooks_set := True\<rparr>\<rparr>))"

definition jz4780_nand_init_ecc :: "platform \<Rightarrow> machine \<Rightarrow> fault + (s32 \<times> machine)" where
  "jz4780_nand_init_ecc pf m0 =
     (let m = m0\<lparr>nand := (nand m0)\<lparr>ecc_bytes :=
                 c_sdiv (fls (1 + 8 * ecc_size (nand m0)) * ecc_strength (nand m0)) 8\<rparr>\<rparr>
      in case (if ecc_mode (nand m) = NAND_ECC_HW then init_ecc_hw pf m else Inr m) of
           Inl e \<Rightarrow> Inr e
         | Inr m1 \<Rightarrow>
             (let chip = nand m1;
                  m2 = (if ecc_mode chip \<noteq> NAND_ECC_NONE
                        then emit (Dev_Info_Bch (bch (nfc m1) \<noteq> 0) (ecc_strength chip)
                                     (ecc_size chip) (ecc_bytes chip)) m1
                        else emit Dev_Info_No_Ecc m1)
              in if ecc_mode chip = NAND_ECC_SOFT \<or> ecc_mode chip = NAND_ECC_SOFT_BCH
                 then Inr (0, m2)
                 else if ecc_size chip = 0 then Inl Division_By_Zero
                 else
                   (let eccbytes = mtd_writesize chip div ecc_size chip * ecc_bytes chip;
                        start = mtd_oobsize chip - eccbytes;
                        filled = fill_eccpos (eccpos_capacity pf) eccbytes start 0
                                   (layout_eccpos chip) []
                    in Inr (0, m2\<lparr>nand := chip\<lparr>
                         layout_eccbytes := eccbytes,
                         layout_eccpos := fst filled,
                         layout_oobfree := (layout_oobfree chip)
                           (0 := \<lparr>oobfree_offset = 2,
                                  oobfree_length = mtd_oobsize chip - eccbytes - 2\<rparr>),
                         ecc_layout_set := True\<rparr>,
                       trace := trace m2 @ snd filled\<rparr>))))"

text \<open>
  The ECC byte count in the spec's words:
  \<open>ceil (strength * ceil_log2 (1 + 8 * step_size) / 8)\<close>.
\<close>

definition spec_ecc_bytes_per_step :: "nat \<Rightarrow> nat \<Rightarrow> nat" where
  "spec_ecc_bytes_per_step step_size strength =
     (strength * fls_nat (1 + 8 * step_size) + 7) div 8"

section \<open>Attaching a chip\<close>

text \<open>The chip record as \<open>devm_kzalloc\<close> returns it: every field zero.\<close>

definition zero_chip :: jz4780_nand_chip where
  "zero_chip =
     \<lparr>mtd_writesize = 0, mtd_oobsize = 0, IO_ADDR_R = 0, IO_ADDR_W = 0, chip_delay = 0,
      bus_hooks_set = False, dev_ready_set = False, ecc_mode = NAND_ECC_NONE, ecc_size = 0,
      ecc_bytes = 0, ecc_strength = 0, ecc_hooks_set = False, ecc_layout_set = False,
      layout_eccbytes = 0, layout_eccpos = (\<lambda>_. 0),
      layout_oobfree = (\<lambda>_. \<lparr>oobfree_offset = 0, oobfree_length = 0\<rparr>),
      busy_gpio = 0, wp_gpio = 0, busy_gpio_active_low = False, wp_gpio_active_low = False,
      reading = False, selected = 0\<rparr>"

text \<open>The label \<open>err_release_bch\<close>.\<close>

definition err_release_bch :: "machine \<Rightarrow> machine" where
  "err_release_bch m = (if bch (nfc m) \<noteq> 0 then emit (Bch_Release (bch (nfc m))) m else m)"

text \<open>\<open>jz4780_nand_init_chip\<close> from the call of \<open>nand_scan_ident\<close> to its end.\<close>

definition init_chip_scan :: "platform \<Rightarrow> machine \<Rightarrow> fault + (s32 \<times> machine)" where
  "init_chip_scan pf m =
     (let r = nand_scan_ident pf (nand m);
          m1 = emit Nand_Scan_Ident (m\<lparr>nand := snd r\<rparr>)
      in if fst r \<noteq> 0 then Inr (fst r, m1)
         else
           (case jz4780_nand_init_ecc pf m1 of
              Inl f \<Rightarrow> Inl f
            | Inr (ret, m2) \<Rightarrow>
                if ret \<noteq> 0 then Inr (ret, m2)
                else
                  (let t = nand_scan_tail pf (nand m2);
                       m3 = emit Nand_Scan_Tail (m2\<lparr>nand := snd t\<rparr>)
                   in if fst t \<noteq> 0 then Inr (fst t, err_release_bch m3)
                      else
                        (let reg = mtd_device_parse_register pf (nand m3);
                             m4 = emit Mtd_Device_Parse_Register m3
                         in if reg \<noteq> 0
                            then Inr (reg, err_release_bch (emit Nand_Release m4))
                            else Inr (0, m4)))))"

text \<open>
  \<open>jz4780_nand_init_chip\<close>, given the controller, the events so far and the chip number.
  The machine it returns holds the new chip record, the zeroed record where the function
  returns before the allocation. The fields of \<open>mtd_info\<close> and \<open>nand_chip\<close> that only
  the framework reads (owner, name, parent, flash node, options) are left out.
\<close>

definition jz4780_nand_init_chip ::
  "platform \<Rightarrow> jz4780_nand_controller \<Rightarrow> event list \<Rightarrow> u32 \<Rightarrow> fault + (s32 \<times> machine)" where
  "jz4780_nand_init_chip pf c tr chipnr =
     (if \<not> unat chipnr < length (cs c) then Inl Cs_Out_Of_Bounds
      else
        (let k = unat chipnr;
             set_base = (\<lambda>p. c\<lparr>cs := (cs c)[k := (cs c ! k)\<lparr>base := p\<rparr>]\<rparr>);
             tr1 = tr @ [Nemc_Set_Type (bank (cs c ! k))]
         in case devm_ioremap_resource pf chipnr of
              Inl e \<Rightarrow> Inr (e, \<lparr>nfc = set_base e, nand = zero_chip, trace = tr1\<rparr>)
            | Inr p \<Rightarrow>
                if \<not> devm_kzalloc pf
                then Inr (- ENOMEM, \<lparr>nfc = set_base p, nand = zero_chip, trace = tr1\<rparr>)
                else
                  (case devm_gpiod_get_optional pf ''rb'' of
                     Inl e \<Rightarrow>
                       Inr (e, \<lparr>nfc = set_base p, nand = zero_chip\<lparr>busy_gpio := e\<rparr>,
                                trace = tr1 @ [Dev_Err ''failed to request busy GPIO: %d'' [e]]\<rparr>)
                   | Inr g \<Rightarrow>
                       (let n1 = (if g \<noteq> 0
                                  then zero_chip\<lparr>busy_gpio := g,
                                         busy_gpio_active_low := gpiod_is_active_low pf g,
                                         dev_ready_set := True\<rparr>
                                  else zero_chip\<lparr>busy_gpio := g\<rparr>)
                        in case devm_gpiod_get_optional pf ''wp'' of
                             Inl e \<Rightarrow>
                               Inr (e, \<lparr>nfc = set_base p, nand = n1\<lparr>wp_gpio := e\<rparr>,
                                        trace = tr1 @ [Dev_Err ''failed to request WP GPIO: %d'' [e]]\<rparr>)
                           | Inr w \<Rightarrow>
                               (let n2 = (if w \<noteq> 0
                                          then n1\<lparr>wp_gpio := w,
                                                 wp_gpio_active_low := gpiod_is_active_low pf w\<rparr>
                                          else n1\<lparr>wp_gpio := w\<rparr>);
                                    n3 = n2\<lparr>selected := - 1, chip_delay := RB_DELAY_US,
                                            bus_hooks_set := True, ecc_mode := NAND_ECC_NONE\<rparr>
                                in init_chip_scan pf
                                     \<lparr>nfc = set_base p, nand = n3, trace = tr1\<rparr>)))))"

section \<open>Sequences of bus calls and the NEMC chip-enable lines\<close>

datatype hook_call = Select_Chip s32 | Cmd_Ctrl s32 u32

fun run_call :: "machine \<Rightarrow> hook_call \<Rightarrow> fault + machine" where
  "run_call m (Select_Chip chipnr) = jz4780_nand_select_chip m chipnr"
| "run_call m (Cmd_Ctrl cmd ctrl) = jz4780_nand_cmd_ctrl m cmd ctrl"

fun run_calls :: "machine \<Rightarrow> hook_call list \<Rightarrow> fault + machine" where
  "run_calls m [] = Inr m"
| "run_calls m (call # calls) =
     (case run_call m call of Inl f \<Rightarrow> Inl f | Inr m1 \<Rightarrow> run_calls m1 calls)"

text \<open>
  Modelled from the spec: \<open>jz4780_nemc_assert\<close> of the NEMC module, which is not part of
  the source, asserts or deasserts the chip-enable line of one bank. The banks asserted
  after a trace are those whose last such call asserted them.
\<close>

fun nemc_step :: "u32 set \<Rightarrow> event \<Rightarrow> u32 set" where
  "nemc_step S (Nemc_Assert b a) = (if a then insert b S else S - {b})"
| "nemc_step S _ = S"

definition asserted_banks :: "event list \<Rightarrow> u32 set" where
  "asserted_banks tr = foldl nemc_step {} tr"

text \<open>An event that leaves the chip-enable lines of all banks but \<open>b\<close> alone.\<close>

fun only_bank :: "u32 \<Rightarrow> event \<Rightarrow> bool" where
  "only_bank b (Nemc_Assert b' a) = (b' = b)"
| "only_bank b _ = True"

section \<open>A concrete board\<close>

text \<open>
  Two chips on banks 1 and 3, declared in that order, a ready/busy GPIO that reads 1 and
  is active high, a BCH engine, a flash with 4096-byte pages, 224 OOB bytes and
  hardware ECC of strength 24 over 1024-byte steps, and an \<open>eccpos[]\<close> of 640 elements.
\<close>

definition example_nfc :: jz4780_nand_controller where
  "example_nfc =
     \<lparr>bch = 0x10, cs = [\<lparr>bank = 1, base = 0x1B000000\<rparr>, \<lparr>bank = 3, base = 0x19000000\<rparr>]\<rparr>"

definition example_machine :: machine where
  "example_machine =
     \<lparr>nfc = example_nfc,
      nand = zero_chip\<lparr>busy_gpio := 0x30, dev_ready_set := True, selected := - 1\<rparr>,
      trace = []\<rparr>"

definition example_selected :: machine where
  "example_selected = example_machine\<lparr>nand := (nand example_machine)\<lparr>selected := 0\<rparr>\<rparr>"

definition example_platform :: platform where
  "example_platform =
     \<lparr>gpiod_get_value_cansleep = (\<lambda>_. 1),
      gpiod_is_active_low = (\<lambda>_. False),
      jz4780_bch_calculate = (\<lambda>b p dat ecc_code. (0, replicate (unat (params_bytes p)) 0)),
      jz4780_bch_correct = (\<lambda>b p dat read_ecc. (0, dat)),
      of_parse_phandle = 0x20,
      jz4780_bch_get = (\<lambda>np. (0, 0x10)),
      devm_ioremap_resource = (\<lambda>chipnr. Inr 0x1B000000),
      devm_kzalloc = True,
      devm_gpiod_get_optional = (\<lambda>name. Inr 0),
      nand_scan_ident = (\<lambda>c. (0, c\<lparr>mtd_writesize := 4096, mtd_oobsize := 224,
        ecc_mode := NAND_ECC_HW, ecc_size := 1024, ecc_strength := 24\<rparr>)),
      nand_scan_tail = (\<lambda>c. (0, c)),
      mtd_device_parse_register = (\<lambda>c. 0),
      eccpos_capacity = 640\<rparr>"

text \<open>
  The chip record as \<open>nand_scan_ident\<close> leaves it on that board, and the same flash with
  128 OOB bytes only, with 8192-byte pages, 744 OOB bytes and ECC of strength 48, and with
  ECC of strength 4 over 512-byte steps.
\<close>

definition example_scanned :: machine where
  "example_scanned =
     \<lparr>nfc = example_nfc,
      nand = zero_chip\<lparr>mtd_writesize := 4096, mtd_oobsize := 224, ecc_mode := NAND_ECC_HW,
               ecc_size := 1024, ecc_strength := 24, selected := - 1\<rparr>,
      trace = []\<rparr>"

definition example_small_oob :: machine where
  "example_small_oob = example_scanned\<lparr>nand := (nand example_scanned)\<lparr>mtd_oobsize := 128\<rparr>\<rparr>"


definition example_step512 :: machine where
  "example_step512 =
     example_scanned\<lparr>nand := (nand example_scanned)\<lparr>ecc_size := 512, ecc_strength := 4\<rparr>\<rparr>"

text \<open>The same board with a flash that identifies with 128 OOB bytes.\<close>

definition example_platform_small_oob :: platform where
  "example_platform_small_oob =
     example_platform\<lparr>nand_scan_ident := (\<lambda>c. (0, c\<lparr>mtd_writesize := 4096,
       mtd_oobsize := 128, ecc_mode := NAND_ECC_HW, ecc_size := 1024, ecc_strength := 24\<rparr>))\<rparr>"

text \<open>What \<open>jz4780_nand_init_ecc\<close> makes of \<open>example_scanned\<close>.\<close>

definition example_laid_out :: machine where
  "example_laid_out =
     example_scanned\<lparr>nand := (nand example_scanned)\<lparr>ecc_bytes := 42, ecc_hooks_set := True,
         ecc_layout_set := True, layout_eccbytes := 168,
         layout_eccpos := fst (fill_eccpos 640 168 56 0 (\<lambda>_. 0) []),
         layout_oobfree := (\<lambda>_. \<lparr>oobfree_offset = 0, oobfree_length = 0\<rparr>)
           (0 := \<lparr>oobfree_offset = 2, oobfree_length = 54\<rparr>)\<rparr>,
       trace := [Dev_Info_Bch True 24 1024 42]\<rparr>"


definition result_status :: "fault + (s32 \<times> machine) \<Rightarrow> s32 option" where
  "result_status r = (case r of Inl f \<Rightarrow> None | Inr x \<Rightarrow> Some (fst x))"

definition result_chip :: "fault + (s32 \<times> machine) \<Rightarrow> jz4780_nand_chip option" where
  "result_chip r = (case r of Inl f \<Rightarrow> None | Inr x \<Rightarrow> Some (nand (snd x)))"

section \<open>Bus hooks\<close>

text \<open>
  C1. A \<open>cmd_ctrl\<close> call whose control bits include the bus-state-change flag, made while
  a chip is selected (\<open>c\<close> is its slot of \<open>cs[]\<close>), leaves the write pointer at
  \<open>base + 0x800000\<close> if the address-latch bit is set, else at \<open>base + 0x400000\<close> if the
  command-latch bit is set, else at \<open>base\<close>. It tells the NEMC the chip-enable state of
  the bank and then, if the call carries a byte, writes the byte at the new pointer: the
  state change comes first in the trace.
\<close>

theorem cmd_ctrl_change_sets_pointer_then_writes:
  assumes "ctrl AND NAND_CTRL_CHANGE \<noteq> 0"
    and "cs_at (nfc m) (selected (nand m)) = Inr c"
  shows "jz4780_nand_cmd_ctrl m cmd ctrl =
    (let p = (if ctrl AND NAND_ALE \<noteq> 0 then base c + 0x800000
              else if ctrl AND NAND_CLE \<noteq> 0 then base c + 0x400000
              else base c)
     in Inr (m\<lparr>nand := (nand m)\<lparr>IO_ADDR_W := p\<rparr>,
               trace := trace m @ Nemc_Assert (bank c) (ctrl AND NAND_NCE \<noteq> 0)
                 # (if cmd = NAND_CMD_NONE then [] else [Writeb (ucast cmd) p])\<rparr>))"
proof -
  have sel: "\<not> sint (selected (nand m)) < 0"
    using assms(2) by (auto simp: cs_at_def split: if_splits)
  show ?thesis
    using assms sel
    by (simp add: jz4780_nand_cmd_ctrl_def emit_def OFFSET_ADDR_def OFFSET_CMD_def
        OFFSET_DATA_def Let_def)
qed

text \<open>
  The spec's first scenario: with chip 0 selected, \<open>cmd_ctrl(0x70, CLE|NCE|CHANGE)\<close>
  asserts bank 1 and writes \<open>0x70\<close> at the command window of bank 1.
\<close>

theorem cmd_ctrl_change_sets_pointer_then_writes_witness:
  "(0x83 :: u32) AND NAND_CTRL_CHANGE \<noteq> 0
   \<and> cs_at (nfc example_selected) (selected (nand example_selected))
       = Inr \<lparr>bank = 1, base = 0x1B000000\<rparr>
   \<and> jz4780_nand_cmd_ctrl example_selected 0x70 0x83 =
       Inr (example_selected\<lparr>nand := (nand example_selected)\<lparr>IO_ADDR_W := 0x1B400000\<rparr>,
              trace := [Nemc_Assert 1 True, Writeb 0x70 0x1B400000]\<rparr>)"
proof -
  have a: "(0x83 :: u32) AND NAND_CTRL_CHANGE \<noteq> 0"
    by (simp add: NAND_CTRL_CHANGE_def)
  have b: "cs_at (nfc example_selected) (selected (nand example_selected))
       = Inr \<lparr>bank = 1, base = 0x1B000000\<rparr>"
    by (simp add: cs_at_def example_selected_def example_machine_def example_nfc_def)
  show ?thesis
    using a b cmd_ctrl_change_sets_pointer_then_writes [OF a b, of "0x70"]
    by (simp add: NAND_ALE_def NAND_CLE_def NAND_NCE_def NAND_CMD_NONE_def
        example_selected_def example_machine_def)
qed

text \<open>
  C8. A \<open>cmd_ctrl\<close> call made while no chip is selected (the selected index is negative)
  raises the kernel warning and does nothing else, whatever byte and control bits it is
  given: no byte is written, the NEMC is not called, the write pointer and every other
  field keep their values, and the call returns normally.
\<close>

theorem cmd_ctrl_without_chip_is_noop:
  assumes "sint (selected (nand m)) < 0"
  shows "jz4780_nand_cmd_ctrl m cmd ctrl = Inr (m\<lparr>trace := trace m @ [Warn_On]\<rparr>)"
  using assms by (simp add: jz4780_nand_cmd_ctrl_def emit_def)

theorem cmd_ctrl_without_chip_is_noop_witness:
  "sint (selected (nand example_machine)) < 0
   \<and> jz4780_nand_cmd_ctrl example_machine 0x70 0x83
       = Inr (example_machine\<lparr>trace := [Warn_On]\<rparr>)"
proof -
  have a: "sint (selected (nand example_machine)) < 0"
    by (simp add: example_machine_def)
  show ?thesis
    using a cmd_ctrl_without_chip_is_noop [OF a, of "0x70" "0x83"]
    by (simp add: example_machine_def)
qed

text \<open>
  C9. A \<open>select_chip\<close> call with a chip index \<open>n\<close> that has a slot \<open>c\<close> in \<open>cs[]\<close> sets
  the data read pointer and the data write pointer to the base of that slot's window
  (the DATA sub-window, offset 0) and records \<open>n\<close> as the selected index. Nothing else
  changes: the trace is the same, so the NEMC is not called, and the controller and all
  other chip fields keep their values.
\<close>

theorem select_chip_sets_data_window_only:
  assumes "cs_at (nfc m) chipnr = Inr c"
  shows "jz4780_nand_select_chip m chipnr =
    Inr (m\<lparr>nand := (nand m)\<lparr>IO_ADDR_R := base c, IO_ADDR_W := base c, selected := chipnr\<rparr>\<rparr>)"
proof -
  have "0 \<le> sint chipnr"
    using assms by (auto simp: cs_at_def split: if_splits)
  then have "chipnr \<noteq> - 1"
    by auto
  then show ?thesis
    using assms by (simp add: jz4780_nand_select_chip_def OFFSET_DATA_def)
qed

theorem select_chip_sets_data_window_only_witness:
  "cs_at (nfc example_machine) 1 = Inr \<lparr>bank = 3, base = 0x19000000\<rparr>
   \<and> jz4780_nand_select_chip example_machine 1 =
     Inr (example_machine\<lparr>nand := (nand example_machine)
            \<lparr>IO_ADDR_R := 0x19000000, IO_ADDR_W := 0x19000000, selected := 1\<rparr>\<rparr>)"
proof -
  have a: "cs_at (nfc example_machine) 1 = Inr \<lparr>bank = 3, base = 0x19000000\<rparr>"
    by (simp add: cs_at_def example_machine_def example_nfc_def)
  show ?thesis
    using a select_chip_sets_data_window_only [OF a] by simp
qed

section \<open>Device ready\<close>

lemma word_xor_eq_0_iff: "x XOR y = 0 \<longleftrightarrow> x = y" for x y :: "'a::len word"
proof
  assume "x XOR y = 0"
  then have "(x XOR y) XOR y = 0 XOR y"
    by simp
  then show "x = y"
    by (simp add: xor.assoc)
next
  assume "x = y"
  then show "x XOR y = 0"
    by simp
qed

text \<open>
  C6, as the code has it. The \<open>dev_ready\<close> hook returns the logical negation of the GPIO
  value XORed with the recorded active-low polarity: 1 when the value read equals the
  polarity bit, 0 otherwise.
\<close>

theorem dev_ready_is_negated_xor:
  "jz4780_nand_dev_ready pf m =
     (if gpiod_get_value_cansleep pf (busy_gpio (nand m))
          = (if busy_gpio_active_low (nand m) then 1 else 0)
      then 1 else 0)"
  by (simp add: jz4780_nand_dev_ready_def word_xor_eq_0_iff)

text \<open>
  C6 as the spec states it fails: with the GPIO reading 1 and active-high polarity the
  XOR is 1, and the hook returns 0.
\<close>

theorem dev_ready_not_plain_xor:
  "gpiod_get_value_cansleep example_platform (busy_gpio (nand example_machine))
       XOR (if busy_gpio_active_low (nand example_machine) then 1 else 0) = 1
   \<and> jz4780_nand_dev_ready example_platform example_machine = 0"
  by (simp add: jz4780_nand_dev_ready_def example_platform_def example_machine_def
      zero_chip_def)

section \<open>ECC hooks\<close>

text \<open>
  C7. After \<open>hwctl(READ)\<close>, \<open>calculate\<close> returns 0 and leaves the output buffer and the
  machine as they are: the BCH engine is not called. After \<open>hwctl(WRITE)\<close>, \<open>calculate\<close>
  calls the BCH engine's calculate once, with the chip's step size, ECC bytes per step
  and strength and with the data buffer, and returns the engine's status and the buffer
  the engine has written.
\<close>

theorem hwctl_gates_calculate:
  "jz4780_nand_ecc_calculate pf (jz4780_nand_ecc_hwctl m NAND_ECC_READ) dat ecc_code
     = (0, ecc_code, jz4780_nand_ecc_hwctl m NAND_ECC_READ)
   \<and> jz4780_nand_ecc_calculate pf (jz4780_nand_ecc_hwctl m NAND_ECC_WRITE) dat ecc_code
     = (fst (jz4780_bch_calculate pf (bch (nfc m))
               \<lparr>params_size = ecc_size (nand m), params_bytes = ecc_bytes (nand m),
                params_strength = ecc_strength (nand m)\<rparr> dat ecc_code),
        snd (jz4780_bch_calculate pf (bch (nfc m))
               \<lparr>params_size = ecc_size (nand m), params_bytes = ecc_bytes (nand m),
                params_strength = ecc_strength (nand m)\<rparr> dat ecc_code),
        (jz4780_nand_ecc_hwctl m NAND_ECC_WRITE)
          \<lparr>trace := trace m @ [Bch_Calculate (bch (nfc m))
               \<lparr>params_size = ecc_size (nand m), params_bytes = ecc_bytes (nand m),
                params_strength = ecc_strength (nand m)\<rparr> dat]\<rparr>)"
  by (simp add: jz4780_nand_ecc_calculate_def jz4780_nand_ecc_hwctl_def chip_bch_params_def
      emit_def NAND_ECC_READ_def NAND_ECC_WRITE_def Let_def)

text \<open>
  C10. The \<open>correct\<close> hook does not depend on its \<open>calc_ecc\<close> argument: two calls that
  differ in that buffer only return the same status, the same corrected data and the
  same machine.
\<close>

theorem correct_ignores_calc_ecc:
  "jz4780_nand_ecc_correct pf m dat read_ecc calc_ecc
     = jz4780_nand_ecc_correct pf m dat read_ecc calc_ecc'"
  by (simp add: jz4780_nand_ecc_correct_def)

section \<open>Select, command cycles, deselect\<close>

lemma nemc_step_only_bank:
  "only_bank b e \<Longrightarrow> S \<subseteq> {b} \<Longrightarrow> nemc_step S e \<subseteq> {b}"
  by (cases e) auto

lemma foldl_nemc_step_only_bank:
  "list_all (only_bank b) evs \<Longrightarrow> S \<subseteq> {b} \<Longrightarrow> foldl nemc_step S evs \<subseteq> {b}"
proof (induction evs arbitrary: S)
  case Nil
  then show ?case by simp
next
  case (Cons e evs)
  then show ?case
    using nemc_step_only_bank [of b e S] by simp
qed

lemma asserted_banks_append:
  "asserted_banks (tr @ evs) = foldl nemc_step (asserted_banks tr) evs"
  by (simp add: asserted_banks_def)

lemma run_calls_append:
  "run_calls m (xs @ ys) =
     (case run_calls m xs of Inl f \<Rightarrow> Inl f | Inr m1 \<Rightarrow> run_calls m1 ys)"
  by (induction xs arbitrary: m) (auto split: sum.splits)

lemma cmd_ctrl_selected_step:
  assumes "cs_at (nfc m) (selected (nand m)) = Inr c"
  shows "\<exists>m' evs. jz4780_nand_cmd_ctrl m cmd ctrl = Inr m' \<and> nfc m' = nfc m
    \<and> selected (nand m') = selected (nand m) \<and> trace m' = trace m @ evs
    \<and> list_all (only_bank (bank c)) evs"
proof -
  have sel: "\<not> sint (selected (nand m)) < 0"
    using assms by (auto simp: cs_at_def split: if_splits)
  show ?thesis
    using assms sel by (simp add: jz4780_nand_cmd_ctrl_def emit_def)
qed

lemma cmd_ctrl_calls_selected:
  assumes "cs_at (nfc m) (selected (nand m)) = Inr c"
  shows "\<exists>m' evs. run_calls m (map (\<lambda>(cmd, ctrl). Cmd_Ctrl cmd ctrl) ccs) = Inr m'
    \<and> nfc m' = nfc m \<and> selected (nand m') = selected (nand m)
    \<and> trace m' = trace m @ evs \<and> list_all (only_bank (bank c)) evs"
  using assms
proof (induction ccs arbitrary: m)
  case Nil
  then show ?case by simp
next
  case (Cons cc ccs)
  obtain cmd ctrl where cc: "cc = (cmd, ctrl)"
    by (cases cc)
  from cmd_ctrl_selected_step [OF Cons.prems, of cmd ctrl]
  obtain m1 evs1 where step: "jz4780_nand_cmd_ctrl m cmd ctrl = Inr m1" "nfc m1 = nfc m"
    "selected (nand m1) = selected (nand m)" "trace m1 = trace m @ evs1"
    "list_all (only_bank (bank c)) evs1"
    by blast
  have "cs_at (nfc m1) (selected (nand m1)) = Inr c"
    using Cons.prems step by simp
  from Cons.IH [OF this]
  obtain m2 evs2 where rest: "run_calls m1 (map (\<lambda>(cmd, ctrl). Cmd_Ctrl cmd ctrl) ccs) = Inr m2"
    "nfc m2 = nfc m1" "selected (nand m2) = selected (nand m1)" "trace m2 = trace m1 @ evs2"
    "list_all (only_bank (bank c)) evs2"
    by blast
  have "run_calls m (map (\<lambda>(cmd, ctrl). Cmd_Ctrl cmd ctrl) (cc # ccs)) = Inr m2"
    using cc step(1) rest(1) by simp
  moreover have "trace m2 = trace m @ (evs1 @ evs2)"
    using step(4) rest(4) by simp
  moreover have "list_all (only_bank (bank c)) (evs1 @ evs2)"
    using step(5) rest(5) by simp
  ultimately show ?case
    using step(2,3) rest(2,3) by metis
qed

lemma list_all_take: "list_all P xs \<Longrightarrow> list_all P (take n xs)"
  by (auto simp: list_all_iff dest: in_set_takeD)

text \<open>
  C5. Start with no bank asserted and let \<open>a\<close> be a chip index with slot \<open>c\<close> in
  \<open>cs[]\<close>. The sequence \<open>select_chip(a)\<close>, any number of \<open>cmd_ctrl\<close> calls,
  \<open>select_chip(-1)\<close> runs to its end; at every point of it the asserted banks are
  none or the bank of \<open>c\<close> alone; its last event is the deselect's call that
  deasserts that bank, after which no bank is asserted and the selected index is -1.
\<close>

theorem select_cmd_deselect_asserts_one_bank:
  assumes "cs_at (nfc m) a = Inr c"
    and "asserted_banks (trace m) = {}"
  shows "\<exists>m' evs.
      run_calls m (Select_Chip a # map (\<lambda>(cmd, ctrl). Cmd_Ctrl cmd ctrl) ccs
                     @ [Select_Chip (- 1)]) = Inr m'
    \<and> trace m' = trace m @ evs @ [Nemc_Assert (bank c) False]
    \<and> (\<forall>n. asserted_banks (trace m @ take n evs) \<subseteq> {bank c})
    \<and> asserted_banks (trace m') = {}
    \<and> selected (nand m') = - 1"
proof -
  let ?m1 = "m\<lparr>nand := (nand m)\<lparr>IO_ADDR_R := base c, IO_ADDR_W := base c, selected := a\<rparr>\<rparr>"
  have nonneg: "0 \<le> sint a"
    using assms(1) by (auto simp: cs_at_def split: if_splits)
  then have "a \<noteq> - 1"
    by auto
  then have first: "jz4780_nand_select_chip m a = Inr ?m1"
    using assms(1) by (simp add: jz4780_nand_select_chip_def OFFSET_DATA_def)
  have "cs_at (nfc ?m1) (selected (nand ?m1)) = Inr c"
    using assms(1) by simp
  from cmd_ctrl_calls_selected [OF this, of ccs]
  obtain m2 evs where mid: "run_calls ?m1 (map (\<lambda>(cmd, ctrl). Cmd_Ctrl cmd ctrl) ccs) = Inr m2"
    "nfc m2 = nfc m" "selected (nand m2) = a" "trace m2 = trace m @ evs"
    "list_all (only_bank (bank c)) evs"
    by auto
  let ?m3 = "(emit (Nemc_Assert (bank c) False) m2)"
  let ?m' = "?m3\<lparr>nand := (nand ?m3)\<lparr>selected := - 1\<rparr>\<rparr>"
  have last: "jz4780_nand_select_chip m2 (- 1) = Inr ?m'"
    using assms(1) mid(2,3) nonneg by (simp add: jz4780_nand_select_chip_def)
  have run: "run_calls m (Select_Chip a # map (\<lambda>(cmd, ctrl). Cmd_Ctrl cmd ctrl) ccs
                     @ [Select_Chip (- 1)]) = Inr ?m'"
    using first mid(1) last by (simp add: run_calls_append)
  have tr: "trace ?m' = trace m @ evs @ [Nemc_Assert (bank c) False]"
    using mid(4) by (simp add: emit_def)
  have during: "asserted_banks (trace m @ take n evs) \<subseteq> {bank c}" for n
    using foldl_nemc_step_only_bank [OF list_all_take [OF mid(5)], of "{}" n] assms(2)
    by (simp add: asserted_banks_append)
  have "asserted_banks (trace m @ evs) \<subseteq> {bank c}"
    using during [of "length evs"] by simp
  then have final: "asserted_banks (trace ?m') = {}"
    unfolding tr by (auto simp: asserted_banks_def)
  have "selected (nand ?m') = - 1"
    by simp
  with run tr during final show ?thesis
    by blast
qed

text \<open>
  On the example board: select chip 0, a command cycle and an address cycle with
  chip-enable, deselect.
\<close>

theorem select_cmd_deselect_asserts_one_bank_witness:
  "cs_at (nfc example_machine) 0 = Inr \<lparr>bank = 1, base = 0x1B000000\<rparr>
   \<and> asserted_banks (trace example_machine) = {}
   \<and> (\<exists>m' evs.
        run_calls example_machine
          [Select_Chip 0, Cmd_Ctrl 0x70 0x83, Cmd_Ctrl 0 0x85, Select_Chip (- 1)] = Inr m'
      \<and> trace m' = evs @ [Nemc_Assert 1 False]
      \<and> (\<forall>n. asserted_banks (take n evs) \<subseteq> {1})
      \<and> asserted_banks (trace m') = {}
      \<and> selected (nand m') = - 1)"
proof -
  have a: "cs_at (nfc example_machine) 0 = Inr \<lparr>bank = 1, base = 0x1B000000\<rparr>"
    by (simp add: cs_at_def example_machine_def example_nfc_def)
  have b: "asserted_banks (trace example_machine) = {}"
    by (simp add: asserted_banks_def example_machine_def)
  have c: "trace example_machine = []"
    by (simp add: example_machine_def)
  show ?thesis
    using a b select_cmd_deselect_asserts_one_bank [OF a b, of "[(0x70, 0x83), (0, 0x85)]"]
    by (simp add: c)
qed

section \<open>ECC byte count and OOB layout\<close>

lemma init_ecc_keeps_config:
  assumes "jz4780_nand_init_ecc pf m = Inr (ret, m')"
  shows "ecc_bytes (nand m')
           = c_sdiv (fls (1 + 8 * ecc_size (nand m)) * ecc_strength (nand m)) 8
    \<and> ecc_size (nand m') = ecc_size (nand m)
    \<and> ecc_strength (nand m') = ecc_strength (nand m)
    \<and> ecc_mode (nand m') = ecc_mode (nand m)
    \<and> mtd_writesize (nand m') = mtd_writesize (nand m)
    \<and> mtd_oobsize (nand m') = mtd_oobsize (nand m)"
  using assms
  by (auto simp: jz4780_nand_init_ecc_def init_ecc_hw_def emit_def Let_def
      split: if_splits sum.splits)


lemma unat_inc: "i < n \<Longrightarrow> unat (i + 1) = Suc (unat i)" for i n :: u32
proof -
  assume less: "i < n"
  have "i \<noteq> - 1"
    using less word_n1_ge [of n] by auto
  then have "1 + i \<noteq> 0"
    by (simp add: add_eq_0_iff)
  then show ?thesis
    using unatSuc [of i] by (simp add: add.commute)
qed

lemma fill_eccpos_within:
  assumes "unat n \<le> cap"
  shows "fst (fill_eccpos cap n start i f evs) k
           = (if unat i \<le> k \<and> k < unat n then start + of_nat k else f k)
    \<and> snd (fill_eccpos cap n start i f evs) = evs"
  using assms
proof (induction cap n start i f evs rule: fill_eccpos.induct)
  case (1 cap n start i f evs)
  show ?case
  proof (cases "i < n")
    case True
    then have lt: "unat i < unat n"
      by (simp add: word_less_nat_alt)
    then have inside: "unat i < cap"
      using "1.prems" by simp
    have suc: "unat (i + 1) = Suc (unat i)"
      using True by (rule unat_inc)
    have step: "fill_eccpos cap n start i f evs
            = fill_eccpos cap n start (i + 1) (f(unat i := start + i)) evs"
      using True inside by (subst fill_eccpos.simps) simp
    have ih: "fst (fill_eccpos cap n start (i + 1) (f(unat i := start + i)) evs) k
            = (if unat (i + 1) \<le> k \<and> k < unat n then start + of_nat k
               else (f(unat i := start + i)) k)
        \<and> snd (fill_eccpos cap n start (i + 1) (f(unat i := start + i)) evs) = evs"
      using "1.IH"(1) [OF True inside "1.prems"] .
    have "(if unat (i + 1) \<le> k \<and> k < unat n then start + of_nat k
           else (f(unat i := start + i)) k)
        = (if unat i \<le> k \<and> k < unat n then start + of_nat k else f k)"
      using suc lt by (auto simp: le_Suc_eq)
    with step ih show ?thesis
      by simp
  next
    case False
    then have "unat n \<le> unat i"
      by (simp add: word_less_nat_alt)
    moreover have "fill_eccpos cap n start i f evs = (f, evs)"
      using False by (subst fill_eccpos.simps) simp
    ultimately show ?thesis
      by auto
  qed
qed




lemma unat_mult_u32:
  "unat x * unat y < 4294967296 \<Longrightarrow> unat (x * y) = unat x * unat y" for x y :: u32
  using unat_mult_lem [of x y] by simp

lemma unat_add_u32:
  "unat x + unat y < 4294967296 \<Longrightarrow> unat (x + y) = unat x + unat y" for x y :: u32
  using unat_add_lem [of x y] by simp

lemma unat_of_nat_u32: "n < 4294967296 \<Longrightarrow> unat (of_nat n :: u32) = n"
  by (simp add: unat_of_nat)

lemma example_init_ecc:
  "jz4780_nand_init_ecc example_platform example_scanned = Inr (0, example_laid_out)"
  by (simp add: jz4780_nand_init_ecc_def init_ecc_hw_def example_scanned_def
      example_laid_out_def example_nfc_def example_platform_def zero_chip_def emit_def
      c_sdiv_def fls_def fls_nat.simps Let_def fill_eccpos_within)




lemma sint_eq_uint_small: "uint w < 2147483648 \<Longrightarrow> sint w = uint w" for w :: u32
proof -
  assume small: "uint w < 2147483648"
  have "- (2 ^ 31) \<le> (0 :: int)"
    by simp
  also have "0 \<le> uint w"
    by simp
  finally have lower: "- (2 ^ 31) \<le> uint w" .
  have upper: "uint w < 2 ^ 31"
    using small by simp
  have "signed_take_bit 31 (uint w) = uint w"
    using lower upper by (rule signed_take_bit_int_eq_self)
  then show ?thesis
    by (simp add: sint_uint)
qed

lemma sint_nonneg_uint: "0 \<le> sint w \<Longrightarrow> uint w < 2147483648" for w :: u32
proof (rule ccontr)
  assume nonneg: "0 \<le> sint w" and "\<not> uint w < 2147483648"
  then have "2 ^ 31 \<le> uint w"
    by simp
  then have "signed_take_bit 31 (uint w) \<le> uint w - 2 ^ Suc 31"
    by (rule signed_take_bit_int_less_eq)
  then have "signed_take_bit 31 (uint w) \<le> uint w - 4294967296"
    by simp
  moreover have "uint w < 4294967296"
    using unsigned_less [of w, where ?'a = int] by simp
  moreover have "sint w = signed_take_bit 31 (uint w)"
    by (simp add: sint_uint)
  ultimately have "sint w < 0"
    by linarith
  with nonneg show False
    by linarith
qed

lemma uint_less_iff_unat: "uint w < int n \<longleftrightarrow> unat w < n"
  by (subst uint_nat) (rule of_nat_less_iff)

lemma sint_small: "unat w < 2147483648 \<Longrightarrow> sint w = int (unat w)" for w :: u32
proof -
  assume "unat w < 2147483648"
  then have "uint w < int 2147483648"
    by (simp only: uint_less_iff_unat)
  then have "sint w = uint w"
    by (intro sint_eq_uint_small) simp
  then show ?thesis
    by (simp only: uint_nat)
qed

lemma sint_nonneg_small: "0 \<le> sint w \<Longrightarrow> unat w < 2147483648" for w :: u32
proof -
  assume "0 \<le> sint w"
  then have "uint w < 2147483648"
    by (rule sint_nonneg_uint)
  then have "uint w < int 2147483648"
    by simp
  then show ?thesis
    by (simp only: uint_less_iff_unat)
qed

lemma fls_nat_le: "n < 2 ^ k \<Longrightarrow> fls_nat n \<le> k"
proof (induction k arbitrary: n)
  case 0
  then show ?case by (simp add: fls_nat.simps)
next
  case (Suc k)
  show ?case
  proof (cases "n = 0")
    case True
    then show ?thesis by (simp add: fls_nat.simps)
  next
    case False
    have "n div 2 < 2 ^ k"
      using Suc.prems by simp
    then have "fls_nat (n div 2) \<le> k"
      by (rule Suc.IH)
    then show ?thesis
      using False by (subst fls_nat.simps) simp
  qed
qed


text \<open>
  C2, as the code has it. For a step size in \<open>[0, 2^28)\<close> and a strength in
  \<open>[0, 2^26)\<close>, where the 32-bit arithmetic does not overflow, the ECC byte count that
  \<open>init_ecc\<close> stores in the chip's ECC parameters, on every path that returns, is
  \<open>strength * fls (1 + 8 * step_size) / 8\<close> rounded down.
\<close>

theorem init_ecc_bytes_rounds_down:
  assumes "jz4780_nand_init_ecc pf m = Inr (ret, m')"
    and "0 \<le> sint (ecc_size (nand m))"
    and "sint (ecc_size (nand m)) < 2 ^ 28"
    and "0 \<le> sint (ecc_strength (nand m))"
    and "sint (ecc_strength (nand m)) < 2 ^ 26"
  shows "sint (ecc_bytes (nand m'))
    = sint (ecc_strength (nand m))
        * int (fls_nat (1 + 8 * nat (sint (ecc_size (nand m))))) div 8"
proof -
  define s where "s = ecc_size (nand m)"
  define t where "t = ecc_strength (nand m)"
  define S where "S = unat s"
  define T where "T = unat t"
  define k where "k = fls_nat (1 + 8 * S)"
  have ss: "sint s = int S"
    unfolding S_def using assms(2) by (intro sint_small sint_nonneg_small) (simp add: s_def)
  have st: "sint t = int T"
    unfolding T_def using assms(4) by (intro sint_small sint_nonneg_small) (simp add: t_def)
  have us: "S < 268435456"
    using assms(3) ss by (simp add: s_def)
  have ut: "T < 67108864"
    using assms(5) st by (simp add: t_def)
  have "unat (8 * s) = unat (8 :: u32) * unat s"
    using us by (intro unat_mult_u32) (simp add: S_def)
  then have u8s: "unat (8 * s) = 8 * S"
    by (simp add: S_def)
  have "unat (1 + 8 * s) = unat (1 :: u32) + unat (8 * s)"
    using us u8s by (intro unat_add_u32) simp
  then have arg: "unat (1 + 8 * s) = 1 + 8 * S"
    using u8s by simp
  have "1 + 8 * S < 2 ^ 32"
    using us by simp
  then have k32: "k \<le> 32"
    unfolding k_def by (rule fls_nat_le)
  have fls: "fls (1 + 8 * s) = of_nat k"
    by (simp add: fls_def arg k_def)
  have uk: "unat (of_nat k :: u32) = k"
    using k32 by (intro unat_of_nat_u32) simp
  have "k * T \<le> 32 * T"
    using k32 by (rule mult_le_mono1)
  moreover have "32 * T < 2147483648"
    using ut by simp
  ultimately have prod: "k * T < 2147483648"
    by linarith
  then have "unat (of_nat k * t) = unat (of_nat k :: u32) * unat t"
    using uk by (intro unat_mult_u32) (simp add: T_def)
  then have up: "unat (of_nat k * t) = k * T"
    using uk by (simp add: T_def)
  then have sp: "sint (of_nat k * t) = int (k * T)"
    using prod sint_small [of "of_nat k * t"] by simp
  have s8: "sint (8 :: s32) = 8"
    by simp
  have quot: "int (k * T) sdiv 8 = int (k * T div 8)"
    by (simp add: signed_divide_int_def zdiv_int sgn_if)
  have "c_sdiv (fls (1 + 8 * s) * t) 8 = of_nat (k * T div 8)"
    unfolding c_sdiv_def fls sp s8 quot by simp
  moreover have "unat (of_nat (k * T div 8) :: u32) = k * T div 8"
    using prod by (intro unat_of_nat_u32) simp
  moreover have "k * T div 8 < 2147483648"
    using prod by simp
  ultimately have "sint (c_sdiv (fls (1 + 8 * s) * t) 8) = int (k * T div 8)"
    using sint_small [of "of_nat (k * T div 8)"] by simp
  moreover have "ecc_bytes (nand m') = c_sdiv (fls (1 + 8 * s) * t) 8"
    using init_ecc_keeps_config [OF assms(1)] by (simp add: s_def t_def)
  moreover have "nat (sint s) = S"
    using ss by simp
  moreover have "int (k * T div 8) = int T * int k div 8"
    by (simp add: zdiv_int mult.commute)
  ultimately show ?thesis
    using st unfolding s_def [symmetric] t_def [symmetric]
    by (simp add: k_def)
qed

text \<open>The spec's third scenario: strength 24 over 1024-byte steps gives 42 bytes.\<close>

theorem init_ecc_bytes_rounds_down_witness:
  "jz4780_nand_init_ecc example_platform example_scanned = Inr (0, example_laid_out)
   \<and> 0 \<le> sint (ecc_size (nand example_scanned))
   \<and> sint (ecc_size (nand example_scanned)) < 2 ^ 28
   \<and> 0 \<le> sint (ecc_strength (nand example_scanned))
   \<and> sint (ecc_strength (nand example_scanned)) < 2 ^ 26
   \<and> sint (ecc_bytes (nand example_laid_out)) = 24 * int (fls_nat (1 + 8 * 1024)) div 8"
proof -
  have a: "jz4780_nand_init_ecc example_platform example_scanned = Inr (0, example_laid_out)"
    by (rule example_init_ecc)
  have b: "0 \<le> sint (ecc_size (nand example_scanned))"
    by (simp add: example_scanned_def)
  have c: "sint (ecc_size (nand example_scanned)) < 2 ^ 28"
    by (simp add: example_scanned_def)
  have d: "0 \<le> sint (ecc_strength (nand example_scanned))"
    by (simp add: example_scanned_def)
  have e: "sint (ecc_strength (nand example_scanned)) < 2 ^ 26"
    by (simp add: example_scanned_def)
  have f: "sint (ecc_strength (nand example_scanned)) = 24"
    by (simp add: example_scanned_def)
  have g: "nat (sint (ecc_size (nand example_scanned))) = 1024"
    by (simp add: example_scanned_def)
  show ?thesis
    using a b c d e init_ecc_bytes_rounds_down [OF a b c d e]
    unfolding f g by simp
qed

text \<open>
  C2 as the spec states it fails: for strength 4 over 512-byte steps the product
  \<open>4 * 13 = 52\<close> is not a multiple of 8; the code stores 6, the spec's rounding up
  gives 7.
\<close>

theorem init_ecc_bytes_not_rounded_up:
  "map_option ecc_bytes (result_chip (jz4780_nand_init_ecc example_platform example_step512))
     = Some 6
   \<and> spec_ecc_bytes_per_step 512 4 = 7"
  by (simp add: jz4780_nand_init_ecc_def init_ecc_hw_def example_step512_def
      example_scanned_def example_nfc_def zero_chip_def emit_def c_sdiv_def fls_def
      fls_nat.simps Let_def result_chip_def spec_ecc_bytes_per_step_def)

section \<open>An OOB area too small for the ECC bytes\<close>

lemma init_ecc_returns_0:
  assumes "ecc_mode (nand m) \<noteq> NAND_ECC_SOFT"
    and "ecc_mode (nand m) \<noteq> NAND_ECC_SOFT_BCH"
    and "ecc_size (nand m) \<noteq> 0"
    and "ecc_mode (nand m) = NAND_ECC_HW \<and> bch (nfc m) = 0 \<longrightarrow>
           of_parse_phandle pf \<noteq> 0 \<and> fst (jz4780_bch_get pf (of_parse_phandle pf)) = 0"
  shows "\<exists>m'. jz4780_nand_init_ecc pf m = Inr (0, m')"
  using assms
  by (auto simp: jz4780_nand_init_ecc_def init_ecc_hw_def emit_def Let_def
      split: if_splits sum.splits)

text \<open>
  C4, as the code has it. ECC/layout initialization does not look at the OOB size: for a
  hardware or raw ECC configuration with a nonzero step size and a BCH engine that is
  there or can be acquired, \<open>jz4780_nand_init_ecc\<close> returns 0 on the chip that
  \<open>nand_scan_ident\<close> has identified, whether or not
  \<open>total_ecc_bytes + 2 \<le> oob_size\<close>. The attach then goes on to the framework:
  the chip is attached (status 0) exactly when \<open>nand_scan_tail\<close>, called on the
  chip with its generated layout, and \<open>mtd_device_parse_register\<close> both return 0.
\<close>

theorem oob_overflow_refused_only_by_framework:
  assumes "nand_scan_ident pf (nand m) = (0, chip)"
    and "ecc_mode chip \<noteq> NAND_ECC_SOFT"
    and "ecc_mode chip \<noteq> NAND_ECC_SOFT_BCH"
    and "ecc_size chip \<noteq> 0"
    and "ecc_mode chip = NAND_ECC_HW \<and> bch (nfc m) = 0 \<longrightarrow>
           of_parse_phandle pf \<noteq> 0 \<and> fst (jz4780_bch_get pf (of_parse_phandle pf)) = 0"
  shows "\<exists>m2. jz4780_nand_init_ecc pf (emit Nand_Scan_Ident (m\<lparr>nand := chip\<rparr>)) = Inr (0, m2)
    \<and> (result_status (init_chip_scan pf m) = Some 0 \<longleftrightarrow>
         fst (nand_scan_tail pf (nand m2)) = 0
         \<and> mtd_device_parse_register pf (snd (nand_scan_tail pf (nand m2))) = 0)"
proof -
  let ?m1 = "emit Nand_Scan_Ident (m\<lparr>nand := chip\<rparr>)"
  have "\<exists>m2. jz4780_nand_init_ecc pf ?m1 = Inr (0, m2)"
    using assms(2-5) by (intro init_ecc_returns_0) (simp_all add: emit_def)
  then obtain m2 where ecc: "jz4780_nand_init_ecc pf ?m1 = Inr (0, m2)"
    by blast
  have "result_status (init_chip_scan pf m) = Some 0 \<longleftrightarrow>
         fst (nand_scan_tail pf (nand m2)) = 0
         \<and> mtd_device_parse_register pf (snd (nand_scan_tail pf (nand m2))) = 0"
    using assms(1) ecc
    by (auto simp: init_chip_scan_def result_status_def emit_def Let_def)
  with ecc show ?thesis
    by blast
qed

text \<open>
  On the example board with 128 OOB bytes (\<open>168 + 2 > 128\<close>) and a framework that
  accepts the layout, the chip is attached.
\<close>

theorem oob_overflow_refused_only_by_framework_witness:
  "nand_scan_ident example_platform_small_oob (nand example_machine)
     = (0, nand example_small_oob\<lparr>busy_gpio := 0x30, dev_ready_set := True\<rparr>)
   \<and> ecc_mode (nand example_small_oob) \<noteq> NAND_ECC_SOFT
   \<and> ecc_mode (nand example_small_oob) \<noteq> NAND_ECC_SOFT_BCH
   \<and> ecc_size (nand example_small_oob) \<noteq> 0
   \<and> bch (nfc example_machine) \<noteq> 0
   \<and> result_status (init_chip_scan example_platform_small_oob example_machine) = Some 0"
proof -
  let ?chip = "nand example_small_oob\<lparr>busy_gpio := 0x30, dev_ready_set := True\<rparr>"
  have a: "nand_scan_ident example_platform_small_oob (nand example_machine) = (0, ?chip)"
    by (simp add: example_platform_small_oob_def example_platform_def example_machine_def
        example_small_oob_def example_scanned_def zero_chip_def)
  have b: "ecc_mode ?chip \<noteq> NAND_ECC_SOFT"
    by (simp add: example_small_oob_def example_scanned_def)
  have c: "ecc_mode ?chip \<noteq> NAND_ECC_SOFT_BCH"
    by (simp add: example_small_oob_def example_scanned_def)
  have d: "ecc_size ?chip \<noteq> 0"
    by (simp add: example_small_oob_def example_scanned_def)
  have e: "bch (nfc example_machine) \<noteq> 0"
    by (simp add: example_machine_def example_nfc_def)
  then have f: "ecc_mode ?chip = NAND_ECC_HW \<and> bch (nfc example_machine) = 0 \<longrightarrow>
      of_parse_phandle example_platform_small_oob \<noteq> 0
      \<and> fst (jz4780_bch_get example_platform_small_oob
               (of_parse_phandle example_platform_small_oob)) = 0"
    by simp
  have g: "nand_scan_tail example_platform_small_oob = (\<lambda>c. (0, c))"
    "mtd_device_parse_register example_platform_small_oob = (\<lambda>c. 0)"
    by (simp_all add: example_platform_small_oob_def example_platform_def)
  show ?thesis
    using a b c d e oob_overflow_refused_only_by_framework [OF a b c d f]
    by (auto simp: g)
qed

text \<open>
  C4 as the spec states it fails: with 168 ECC bytes and 128 OOB bytes ECC/layout
  initialization stores the layout and returns 0.
\<close>

theorem init_ecc_accepts_small_oob:
  "result_status (jz4780_nand_init_ecc example_platform example_small_oob) = Some 0
   \<and> map_option layout_eccbytes
        (result_chip (jz4780_nand_init_ecc example_platform example_small_oob)) = Some 168
   \<and> map_option mtd_oobsize
        (result_chip (jz4780_nand_init_ecc example_platform example_small_oob)) = Some 128
   \<and> map_option ecc_layout_set
        (result_chip (jz4780_nand_init_ecc example_platform example_small_oob)) = Some True"
  by (simp add: jz4780_nand_init_ecc_def init_ecc_hw_def example_small_oob_def
      example_scanned_def example_nfc_def zero_chip_def emit_def c_sdiv_def fls_def
      fls_nat.simps Let_def result_chip_def result_status_def)

section \<open>The whole attach on the example board\<close>

text \<open>
  \<open>jz4780_nand_init_chip\<close> for chip 0 of the example board attaches the chip with the
  layout of the spec's third scenario; without memory for the chip record it returns
  \<open>-ENOMEM\<close>.
\<close>

lemma init_chip_example_attaches:
  "result_status (jz4780_nand_init_chip example_platform example_nfc [] 0) = Some 0
   \<and> map_option layout_eccbytes
        (result_chip (jz4780_nand_init_chip example_platform example_nfc [] 0)) = Some 168
   \<and> map_option (\<lambda>c. layout_oobfree c 0)
        (result_chip (jz4780_nand_init_chip example_platform example_nfc [] 0))
       = Some \<lparr>oobfree_offset = 2, oobfree_length = 54\<rparr>
   \<and> map_option selected
        (result_chip (jz4780_nand_init_chip example_platform example_nfc [] 0)) = Some (- 1)"
  by (simp add: jz4780_nand_init_chip_def init_chip_scan_def jz4780_nand_init_ecc_def
      init_ecc_hw_def example_platform_def example_nfc_def zero_chip_def emit_def c_sdiv_def
      fls_def fls_nat.simps Let_def result_chip_def result_status_def RB_DELAY_US_def)

lemma init_chip_no_memory:
  "result_status (jz4780_nand_init_chip (example_platform\<lparr>devm_kzalloc := False\<rparr>)
      example_nfc [] 0) = Some (- ENOMEM)"
  by (simp add: jz4780_nand_init_chip_def example_platform_def example_nfc_def
      result_status_def)

end
